theory Spec2Isabelle
  imports Main "HOL-Library.Option_ord" "HOL-Library.Code_Target_Numeral"
begin

section \<open>JavaScript values\<close>

text \<open>
  Document fields hold arbitrary JavaScript values. Numbers are modelled as integers
  (prices and ratios with a fractional part are outside the model), dates as
  milliseconds since the epoch, and an ObjectId by a natural number.
\<close>

datatype jsval = JUndefined | JNull | JBool bool | JNum int | JStr string | JObjectId nat

fun truthy :: "jsval \<Rightarrow> bool" where
  "truthy JUndefined = False"
| "truthy JNull = False"
| "truthy (JBool b) = b"
| "truthy (JNum n) = (n \<noteq> 0)"
| "truthy (JStr s) = (s \<noteq> [])"
| "truthy (JObjectId n) = True"

definition js_or :: "jsval \<Rightarrow> jsval \<Rightarrow> jsval" where
  "js_or a b = (if truthy a then a else b)"

section \<open>Strings\<close>

definition digit_char :: "int \<Rightarrow> char" where
  "digit_char d = ''0123456789'' ! nat d"

function show_pos :: "int \<Rightarrow> string" where
  "show_pos n =
     (if n < 10 then [digit_char n]
      else show_pos (n div 10) @ [digit_char (n mod 10)])"
  by pat_completeness auto
termination
  by (relation "measure nat") auto

declare show_pos.simps [simp del]

definition show_int :: "int \<Rightarrow> string" where
  "show_int i = (if i < 0 then CHR ''-'' # show_pos (- i) else show_pos i)"

definition show_nat :: "nat \<Rightarrow> string" where
  "show_nat n = show_pos (int n)"

text \<open>\<^verbatim>\<open>String(v)\<close> and template interpolation \<^verbatim>\<open>${v}\<close>; an ObjectId renders as
  its number (standing for the hexadecimal string).\<close>

fun js_String :: "jsval \<Rightarrow> string" where
  "js_String JUndefined = ''undefined''"
| "js_String JNull = ''null''"
| "js_String (JBool b) = (if b then ''true'' else ''false'')"
| "js_String (JNum n) = show_int n"
| "js_String (JStr s) = s"
| "js_String (JObjectId n) = show_nat n"

definition upper_char :: "char \<Rightarrow> char" where
  "upper_char c = (let n = (of_char c :: nat) in if 97 \<le> n \<and> n \<le> 122 then char_of (n - 32) else c)"

definition lower_char :: "char \<Rightarrow> char" where
  "lower_char c = (let n = (of_char c :: nat) in if 65 \<le> n \<and> n \<le> 90 then char_of (n + 32) else c)"

text \<open>\<^verbatim>\<open>v.toUpperCase()\<close> exists on strings only (letters outside ASCII are left as they
  are here); on any other value the call raises a TypeError.\<close>

fun toUpperCase :: "jsval \<Rightarrow> string + string" where
  "toUpperCase (JStr s) = Inr (map upper_char s)"
| "toUpperCase v = Inl ''TypeError: toUpperCase is not a function''"

text \<open>The character class of \<^verbatim>\<open>/([_\*\[\]\(\)~`>#+\-=|{}.!])/g\<close>.\<close>

definition md_special :: "char \<Rightarrow> bool" where
  "md_special c = (c \<in> set (''_*[]()~'' @ [CHR 0x60] @ ''>#+-=|{}.!''))"

definition md_escape :: "string \<Rightarrow> string" where
  "md_escape text = concat (map (\<lambda>c. if md_special c then [CHR 0x5C, c] else [c]) text)"

text \<open>\<^verbatim>\<open>function escapeMarkdown(text = '')\<close>: the default replaces \<^verbatim>\<open>undefined\<close> only.\<close>

definition escapeMarkdown :: "jsval \<Rightarrow> string" where
  "escapeMarkdown text = md_escape (js_String (if text = JUndefined then JStr [] else text))"

definition join_lines :: "string list \<Rightarrow> string" where
  "join_lines ls = (case ls of [] \<Rightarrow> [] | l # rest \<Rightarrow> l @ concat (map (\<lambda>x. CHR 0x0A # x) rest))"

section \<open>Work items\<close>

datatype status = Pending | Sending | Active | Deferred | Published | NoStatus | OtherStatus string

record signal =
  oid :: nat
  sig_id :: jsval
  status :: status
  is_premium :: jsval
  expires_at :: "int option"
  generated_at :: "int option"
  market_type :: jsval
  signal_type :: jsval
  pair :: jsval
  entry_price :: jsval
  entry :: jsval
  stop_loss :: jsval
  stop :: jsval
  take_profit :: jsval
  take_fld :: jsval
  confidence_level :: jsval
  risk_reward_ratio :: jsval
  reasoning :: jsval
  validation_warnings :: "jsval list option"
  claimed_at :: "int option"
  deferred_at :: "int option"
  sent_at :: "int option"
  last_telegram_message_id :: "int option"
  sent_channels :: "string list"

record news_item =
  n_oid :: nat
  n_status :: status
  n_expires_at :: "int option"
  n_created_at :: "int option"
  title :: jsval
  summary :: jsval
  source :: jsval
  provider :: jsval
  url :: jsval
  n_claimed_at :: "int option"
  published_at :: "int option"
  failed_at :: "int option"
  n_last_telegram_message_id :: "int option"

text \<open>A document of \<^verbatim>\<open>telegram_signal_logs\<close>, the delivery failure log.\<close>

record failure_record =
  signal_id :: "string option"
  telegram_message_id :: "int option"
  channel_id :: "string option"
  error_message :: "string option"
  metadata :: signal
  created_at :: int

section \<open>The document store\<close>

text \<open>
  A collection is the list of its documents. \<open>updateOne\<close> changes the first document
  that matches the filter, \<open>findOneAndUpdate\<close> with \<open>returnDocument: 'after'\<close>
  also returns that document as updated, or nothing when no document matches. Each is
  one atomic step of the store.
\<close>

fun updateOne :: "('a \<Rightarrow> bool) \<Rightarrow> ('a \<Rightarrow> 'a) \<Rightarrow> 'a list \<Rightarrow> 'a list" where
  "updateOne P f [] = []"
| "updateOne P f (x # xs) = (if P x then f x # xs else x # updateOne P f xs)"

definition findOneAndUpdate :: "('a \<Rightarrow> bool) \<Rightarrow> ('a \<Rightarrow> 'a) \<Rightarrow> 'a list \<Rightarrow> 'a list \<times> 'a option" where
  "findOneAndUpdate P f xs = (updateOne P f xs, map_option f (find P xs))"

text \<open>
  The claim of the consumer loop:
  \<^verbatim>\<open>findOneAndUpdate({ _id, status: 'pending' }, { $set: { status: 'sending', claimed_at: now } })\<close>
\<close>

definition claimFilter :: "nat \<Rightarrow> signal \<Rightarrow> bool" where
  "claimFilter i d = (oid d = i \<and> status d = Pending)"

definition claimUpdate :: "int \<Rightarrow> signal \<Rightarrow> signal" where
  "claimUpdate now d = d\<lparr>status := Sending, claimed_at := Some now\<rparr>"

definition claim :: "nat \<Rightarrow> int \<Rightarrow> signal list \<Rightarrow> signal list \<times> signal option" where
  "claim i now docs = findOneAndUpdate (claimFilter i) (claimUpdate now) docs"


section \<open>Message formatting\<close>

text \<open>
  Two renderings are not computed inside the model and are taken as parameters:
  \<open>toLocaleString\<close> (a date in the locale of the process) and \<open>toFixed2\<close>
  (\<^verbatim>\<open>Number(v).toFixed(2)\<close>, a floating point rendering).

  A line of a message is a template literal: literal text with substitutions
  \<^verbatim>\<open>${...}\<close>. The model keeps the two apart: \<open>Lit\<close> is text of the template, \<open>Dyn\<close> the
  string that a substitution evaluates to. The message is the lines joined by newlines.
\<close>

record fmt =
  toLocaleString :: "int \<Rightarrow> string"
  toFixed2 :: "jsval \<Rightarrow> string"

datatype piece = Lit string | Dyn string

fun render_piece :: "piece \<Rightarrow> string" where
  "render_piece (Lit s) = s"
| "render_piece (Dyn s) = s"

definition render_lines :: "piece list list \<Rightarrow> string" where
  "render_lines ls = join_lines (map (\<lambda>l. concat (map render_piece l)) ls)"

definition bell :: string where
  "bell = [CHR 0xF0, CHR 0x9F, CHR 0x94, CHR 0x94]"

definition newspaper :: string where
  "newspaper = [CHR 0xF0, CHR 0x9F, CHR 0x93, CHR 0xB0]"

definition bullet :: string where
  "bullet = [CHR 0xE2, CHR 0x80, CHR 0xA2]"

definition risk_reward_label :: string where
  "risk_reward_label = ''*Risk'' @ [CHR 0xE2, CHR 0x80, CHR 0x93] @ ''Reward:* ''"

definition disclaimer :: string where
  "disclaimer = ''_Not financial advice. Trade at your own risk._''"

definition direction_of :: "signal \<Rightarrow> jsval" where
  "direction_of sig =
     (if signal_type sig = JStr ''LONG'' then JStr ''BUY (LONG)''
      else if signal_type sig = JStr ''SHORT'' then JStr ''SELL (SHORT)''
      else js_or (signal_type sig) (JStr ''HOLD''))"

text \<open>The lines that \<open>formatSignalMessage\<close> and the single-tick endpoint have in common,
  for the market name already computed.\<close>

definition head_lines :: "fmt \<Rightarrow> string \<Rightarrow> signal \<Rightarrow> piece list list" where
  "head_lines f market sig =
     [[Lit (bell @ '' *NEW ''), Dyn (escapeMarkdown (JStr market)), Lit '' SIGNAL*''],
      [Lit ''*Pair:* '', Dyn (escapeMarkdown (js_or (pair sig) (JStr ''N/A'')))],
      [Lit ''*Direction:* '', Dyn (escapeMarkdown (direction_of sig))],
      [Lit ''*Entry:* '',
       Dyn (escapeMarkdown (JStr (js_String (js_or (entry_price sig) (js_or (entry sig) (JStr ''N/A''))))))],
      [Lit ''*Stop Loss:* '',
       Dyn (escapeMarkdown (JStr (js_String (js_or (stop_loss sig) (js_or (stop sig) (JStr ''N/A''))))))],
      [Lit ''*Take Profit:* '',
       Dyn (escapeMarkdown (JStr (js_String (js_or (take_profit sig) (js_or (take_fld sig) (JStr ''N/A''))))))]]
     @ (if confidence_level sig \<noteq> JUndefined
        then [[Lit ''*Confidence:* '', Dyn (escapeMarkdown (JStr (js_String (confidence_level sig)))), Lit ''%'']]
        else [])
     @ (if risk_reward_ratio sig \<noteq> JUndefined
        then [[Lit risk_reward_label, Dyn (escapeMarkdown (JStr (toFixed2 f (risk_reward_ratio sig)))), Lit '' : 1'']]
        else [])
     @ (if truthy (reasoning sig)
        then [[], [Lit ''*Reasoning:* '', Dyn (escapeMarkdown (reasoning sig))]]
        else [])
     @ (case generated_at sig of
          Some g \<Rightarrow> [[], [Lit ''*Generated:* '', Dyn (escapeMarkdown (JStr (toLocaleString f g)))]]
        | None \<Rightarrow> [])
     @ (case expires_at sig of
          Some x \<Rightarrow> [[Lit ''*Expires:* '', Dyn (escapeMarkdown (JStr (toLocaleString f x)))]]
        | None \<Rightarrow> [])"

definition warning_lines :: "signal \<Rightarrow> piece list list" where
  "warning_lines sig =
     (case validation_warnings sig of
        Some (w # ws) \<Rightarrow>
          [[], [Lit ''*Warnings:*'']] @ map (\<lambda>w. [Lit (bullet @ '' ''), Dyn (escapeMarkdown w)]) (w # ws)
      | _ \<Rightarrow> [])"

definition signal_lines :: "fmt \<Rightarrow> string \<Rightarrow> signal \<Rightarrow> piece list list" where
  "signal_lines f market sig = head_lines f market sig @ warning_lines sig @ [[], [Lit disclaimer]]"

definition formatSignalMessage :: "fmt \<Rightarrow> signal \<Rightarrow> string + string" where
  "formatSignalMessage f sig =
     (case toUpperCase (js_or (market_type sig) (JStr [])) of
        Inl err \<Rightarrow> Inl err
      | Inr market \<Rightarrow> Inr (render_lines (signal_lines f market sig)))"

text \<open>The text built inline by the single-tick endpoint: the market name falls back to
  \<^verbatim>\<open>'MARKET'\<close> and the warnings are not listed.\<close>

definition handler_lines :: "fmt \<Rightarrow> string \<Rightarrow> signal \<Rightarrow> piece list list" where
  "handler_lines f market sig = head_lines f market sig @ [[], [Lit disclaimer]]"

definition handler_text :: "fmt \<Rightarrow> signal \<Rightarrow> string + string" where
  "handler_text f sig =
     (case toUpperCase (js_or (market_type sig) (JStr [])) of
        Inl err \<Rightarrow> Inl err
      | Inr m \<Rightarrow> Inr (render_lines (handler_lines f (if m \<noteq> [] then m else ''MARKET'') sig)))"

definition news_lines :: "fmt \<Rightarrow> news_item \<Rightarrow> piece list list" where
  "news_lines f item =
     [[Lit (newspaper @ '' *''), Dyn (escapeMarkdown (js_or (title item) (JStr ''News Update'')))]]
     @ (if truthy (summary item) then [[Dyn (escapeMarkdown (summary item))]] else [])
     @ (if truthy (source item) \<or> truthy (provider item)
        then [[], [Lit ''*Source:* '', Dyn (escapeMarkdown (js_or (source item) (provider item)))]]
        else [])
     @ (if truthy (url item) then [[Lit ''[Read more]('', Dyn (escapeMarkdown (url item)), Lit '')'']] else [])
     @ (case n_created_at item of
          Some c \<Rightarrow> [[], [Lit ''_'', Dyn (escapeMarkdown (JStr (toLocaleString f c))), Lit ''_'']]
        | None \<Rightarrow> [])"

definition formatNewsMessage :: "fmt \<Rightarrow> news_item \<Rightarrow> string" where
  "formatNewsMessage f item = render_lines (news_lines f item)"

section \<open>The environment and the world\<close>

text \<open>
  Every call that leaves the process (a store operation, a transport send) takes its
  outcome from the environment: the \<open>k\<close>-th call of a run lasts \<open>fst (outcomes k)\<close> milliseconds
  and either throws or returns (the returned number is the transport's message id for a
  send and is ignored elsewhere). A call that throws has no effect on the store.
  The world holds the collections, the clock read by \<^verbatim>\<open>new Date()\<close>, the trace of
  calls, console lines and sleeps, and the successive contents of the two work item
  collections.
\<close>

datatype outcome = Throws string | Returns int

datatype call =
    FindPendingSignals nat
  | ClaimSignal nat
  | GetPublishLog string
  | SetPublishLog string int
  | DeferSignal nat
  | SendMessage string string
  | CommitSignal nat
  | LogSignalDeliveryFailure failure_record
  | FindNews
  | ClaimNews nat
  | PublishNews nat
  | RevertNews nat

datatype event = Ext call outcome | Console string jsval | Sleep nat

record env =
  outcomes :: "nat \<Rightarrow> nat \<times> outcome"
  PREMIUM_CHANNEL_ID :: "string option"
  FREE_CHANNEL_ID :: "string option"
  NEWS_PUBLISH_INTERVAL_MINUTES :: "string option"
  USE_MONGO_DB :: "string option"
  render :: fmt

record world =
  signals :: "signal list"
  news_updates :: "news_item list"
  signal_publish_log :: "string \<Rightarrow> int option option"
  telegram_signal_logs :: "failure_record list"
  failedUpdateCache :: "jsval list"
  clock :: int
  calls :: nat
  trace :: "event list"
  signals_hist :: "signal list list"
  news_hist :: "news_item list list"

definition ext :: "env \<Rightarrow> call \<Rightarrow> world \<Rightarrow> outcome \<times> world" where
  "ext e c w =
     (case outcomes e (calls w) of (dt, r) \<Rightarrow>
        (r, w\<lparr>clock := clock w + int dt, calls := Suc (calls w), trace := trace w @ [Ext c r]\<rparr>))"

definition console :: "string \<Rightarrow> jsval \<Rightarrow> world \<Rightarrow> world" where
  "console msg v w = w\<lparr>trace := trace w @ [Console msg v]\<rparr>"

definition sleep :: "nat \<Rightarrow> world \<Rightarrow> world" where
  "sleep ms w = w\<lparr>clock := clock w + int ms, trace := trace w @ [Sleep ms]\<rparr>"

definition put_signals :: "signal list \<Rightarrow> world \<Rightarrow> world" where
  "put_signals ds w = w\<lparr>signals := ds, signals_hist := signals_hist w @ [ds]\<rparr>"

definition put_news :: "news_item list \<Rightarrow> world \<Rightarrow> world" where
  "put_news ns w = w\<lparr>news_updates := ns, news_hist := news_hist w @ [ns]\<rparr>"

text \<open>An environment variable is unset, or a string; the empty string is falsy.\<close>

definition env_or :: "string option \<Rightarrow> string option \<Rightarrow> string option" where
  "env_or a b = (case a of Some (c # cs) \<Rightarrow> a | _ \<Rightarrow> b)"

text \<open>The identifier printed in console lines: \<^verbatim>\<open>sig.id || sig._id\<close>.\<close>

definition ident :: "signal \<Rightarrow> jsval" where
  "ident sig = js_or (sig_id sig) (JObjectId (oid sig))"

section \<open>The long-lived consumer\<close>

definition eligible :: "int \<Rightarrow> signal \<Rightarrow> bool" where
  "eligible now d =
     (status d = Pending \<and> is_premium d \<noteq> JBool False \<and>
      (case expires_at d of Some x \<Rightarrow> now < x | None \<Rightarrow> False))"

text \<open>\<^verbatim>\<open>find(...).sort({ generated_at: 1 }).limit(limit)\<close>: a missing date sorts first;
  documents with equal dates stay in collection order.\<close>

definition find_pending :: "int \<Rightarrow> nat \<Rightarrow> signal list \<Rightarrow> signal list" where
  "find_pending now limit docs = take limit (sort_key generated_at (filter (eligible now) docs))"

definition fetchPendingSignals :: "env \<Rightarrow> nat \<Rightarrow> world \<Rightarrow> (string + signal list) \<times> world" where
  "fetchPendingSignals e limit w =
     (let now = clock w in
      case ext e (FindPendingSignals limit) w of
        (Throws m, w1) \<Rightarrow> (Inl m, w1)
      | (Returns _, w1) \<Rightarrow> (Inr (find_pending now limit (signals w1)), w1))"

definition getPublishLog :: "env \<Rightarrow> string \<Rightarrow> world \<Rightarrow> (string + int option) \<times> world" where
  "getPublishLog e type w =
     (case ext e (GetPublishLog type) w of
        (Throws m, w1) \<Rightarrow> (Inl m, w1)
      | (Returns _, w1) \<Rightarrow>
          (Inr (case signal_publish_log w1 type of None \<Rightarrow> None | Some lp \<Rightarrow> lp), w1))"

text \<open>\<^verbatim>\<open>updateOne({ _id: type }, { $set: { last_published: when } }, { upsert: true })\<close> on the
  publish log, as \<open>setPublishLog\<close> and the inline updates of the news pass and of the
  single-tick endpoint issue it.\<close>

definition setPublishLog :: "env \<Rightarrow> string \<Rightarrow> int \<Rightarrow> world \<Rightarrow> (string + unit) \<times> world" where
  "setPublishLog e type when w =
     (case ext e (SetPublishLog type when) w of
        (Throws m, w1) \<Rightarrow> (Inl m, w1)
      | (Returns _, w1) \<Rightarrow>
          (Inr (), w1\<lparr>signal_publish_log := (signal_publish_log w1)(type := Some (Some when))\<rparr>))"

text \<open>
  \<^verbatim>\<open>updateSignalDocumentWithRetry(signalsCol, filter, update, maxRetries = 3)\<close>, with the filter
  \<^verbatim>\<open>{ _id }\<close> that \<open>sendSignalToPremium\<close> builds for a document read from the store. The
  loop is entered with \<open>attempt = 0\<close> and \<open>backoff = 1000\<close>.
\<close>

function retry_loop ::
  "env \<Rightarrow> nat \<Rightarrow> (signal \<Rightarrow> signal) \<Rightarrow> nat \<Rightarrow> nat \<Rightarrow> nat \<Rightarrow> world \<Rightarrow> (string + jsval) \<times> world" where
  "retry_loop e i upd maxRetries attempt backoff w =
     (if attempt < maxRetries then
        (case ext e (CommitSignal i) w of
           (Returns _, w1) \<Rightarrow>
             (Inr (JBool True), put_signals (updateOne (\<lambda>d. oid d = i) upd (signals w1)) w1)
         | (Throws m, w1) \<Rightarrow>
             (let w2 = console ''[SignalConsumer] Mongo update attempt failed:'' (JNum (int (attempt + 1))) w1
              in if attempt + 1 \<ge> maxRetries then (Inl m, w2)
                 else retry_loop e i upd maxRetries (attempt + 1) (backoff * 2) (sleep backoff w2)))
      else (Inr JUndefined, w))"
  by pat_completeness auto
termination
  by (relation "measure (\<lambda>(e, i, upd, maxRetries, attempt, backoff, w). maxRetries - attempt)") auto

declare retry_loop.simps [simp del]

definition updateSignalDocumentWithRetry ::
  "env \<Rightarrow> nat \<Rightarrow> (signal \<Rightarrow> signal) \<Rightarrow> nat \<Rightarrow> world \<Rightarrow> (string + jsval) \<times> world" where
  "updateSignalDocumentWithRetry e i upd maxRetries w = retry_loop e i upd maxRetries 0 1000 w"

text \<open>\<^verbatim>\<open>$set: { status: 'active', sent_at, last_telegram_message_id }, $addToSet: { sent_channels }\<close>\<close>

definition commitUpdate :: "int \<Rightarrow> int \<Rightarrow> string \<Rightarrow> signal \<Rightarrow> signal" where
  "commitUpdate now mid chat d =
     d\<lparr>status := Active, sent_at := Some now, last_telegram_message_id := Some mid,
       sent_channels := (if chat \<in> set (sent_channels d) then sent_channels d else sent_channels d @ [chat])\<rparr>"

text \<open>\<^verbatim>\<open>err && err.message ? err.message : String(err)\<close> for an Error with message \<open>m\<close>.\<close>

definition err_text :: "string \<Rightarrow> string" where
  "err_text m = (if m \<noteq> [] then m else ''Error'')"

text \<open>
  \<^verbatim>\<open>db.logSignalDeliveryFailure\<close>, as the consumer finds it in the module \<^verbatim>\<open>./db\<close>. The
  wrapper exports the Mongo application database when \<^verbatim>\<open>USE_MONGO_DB\<close> is \<^verbatim>\<open>'1'\<close> or, in any
  letter case, \<^verbatim>\<open>'true'\<close>; its function builds the document and inserts it, and a
  failed insert throws. Otherwise the wrapper exports the SQL implementation, which has no
  such function: the call is a TypeError and nothing leaves the process.
\<close>

definition useMongo :: "env \<Rightarrow> bool" where
  "useMongo e =
     (case USE_MONGO_DB e of
        None \<Rightarrow> False
      | Some v \<Rightarrow> v \<noteq> [] \<and> (v = ''1'' \<or> map lower_char v = ''true''))"

definition logSignalDeliveryFailure ::
  "env \<Rightarrow> jsval \<Rightarrow> int \<Rightarrow> string \<Rightarrow> string \<Rightarrow> signal \<Rightarrow> world \<Rightarrow> (string + unit) \<times> world" where
  "logSignalDeliveryFailure e signalId telegramMessageId channelId errorMessage sig w =
     (if \<not> useMongo e then (Inl ''db.logSignalDeliveryFailure is not a function'', w)
      else
     (let doc = \<lparr>signal_id = (if truthy signalId then Some (js_String signalId) else None),
                 telegram_message_id = (if telegramMessageId \<noteq> 0 then Some telegramMessageId else None),
                 channel_id = (if channelId \<noteq> [] then Some channelId else None),
                 error_message = (if errorMessage \<noteq> [] then Some errorMessage else None),
                 metadata = sig,
                 created_at = clock w\<rparr>
      in case ext e (LogSignalDeliveryFailure doc) w of
           (Throws m, w1) \<Rightarrow> (Inl m, w1)
         | (Returns _, w1) \<Rightarrow> (Inr (), w1\<lparr>telegram_signal_logs := telegram_signal_logs w1 @ [doc]\<rparr>)))"

definition type_of :: "signal \<Rightarrow> string" where
  "type_of sig = (if truthy (is_premium sig) then ''premium'' else ''free'')"

definition chat_of :: "env \<Rightarrow> signal \<Rightarrow> string option" where
  "chat_of e sig =
     (if truthy (is_premium sig) then PREMIUM_CHANNEL_ID e
      else env_or (FREE_CHANNEL_ID e) (PREMIUM_CHANNEL_ID e))"

text \<open>
  After the commit, \<open>sendSignalToPremium\<close> reaches for the publish log through
  \<^verbatim>\<open>signalsCol.db.collection('signal_publish_log')\<close>. A collection handle of the driver has
  no property \<^verbatim>\<open>db\<close>, so the expression throws a TypeError before \<open>setPublishLog\<close> is
  called; the \<^verbatim>\<open>catch\<close> around it prints the message. No call leaves the process and the
  publish log is not written.
\<close>

definition no_db_of_collection :: string where
  "no_db_of_collection =
     ''Cannot read properties of undefined (reading '' @ [CHR 0x27] @ ''collection'' @ [CHR 0x27] @ '')''"

definition sendSignalToPremium :: "env \<Rightarrow> signal \<Rightarrow> world \<Rightarrow> (string + unit) \<times> world" where
  "sendSignalToPremium e sig w =
     (case env_or (chat_of e sig) None of
        None \<Rightarrow> (Inl ''PREMIUM_CHANNEL_ID not set'', w)
      | Some chatId \<Rightarrow>
     (case formatSignalMessage (render e) sig of
        Inl err \<Rightarrow> (Inl err, w)
      | Inr text \<Rightarrow>
     (case ext e (SendMessage chatId text) w of
        (Throws m, w1) \<Rightarrow> (Inl m, w1)
      | (Returns message_id, w1) \<Rightarrow>
     (let now = clock w1 in
      case updateSignalDocumentWithRetry e (oid sig) (commitUpdate now message_id chatId) 3 w1 of
        (Inr _, w2) \<Rightarrow>
          (Inr (), console ''[SignalConsumer] Failed to update publish_log:'' (JStr no_db_of_collection) w2)
      | (Inl err, w2) \<Rightarrow>
          (let sigId = (if sig_id sig \<noteq> JUndefined then sig_id sig else JStr (js_String (JObjectId (oid sig))));
               w3 = w2\<lparr>failedUpdateCache := List.insert sigId (failedUpdateCache w2)\<rparr>;
               w4 = console ''[SignalConsumer] Failed to update Mongo after retries for signal'' sigId w3
           in case logSignalDeliveryFailure e sigId message_id chatId (err_text err) sig w4 of
                (Inl m, w5) \<Rightarrow> (Inr (), console ''[SignalConsumer] Failed to log delivery failure to SQL:'' (JStr m) w5)
              | (Inr _, w5) \<Rightarrow> (Inr (), w5))))))"

text \<open>The cadence check of the tick for a signal of the given type.\<close>

definition allowed :: "string \<Rightarrow> int option \<Rightarrow> int \<Rightarrow> bool" where
  "allowed type lastp now =
     (case lastp of
        None \<Rightarrow> True
      | Some lastDate \<Rightarrow>
          (if type = ''premium'' then now - lastDate \<ge> 24 * 3600 * 1000
           else now - lastDate \<ge> 7 * 24 * 3600 * 1000))"

definition deferUpdate :: "int \<Rightarrow> signal \<Rightarrow> signal" where
  "deferUpdate now d = d\<lparr>status := Deferred, deferred_at := Some now\<rparr>"

text \<open>The body of the inner \<^verbatim>\<open>try\<close> of the loop for a claimed signal, with its
  \<^verbatim>\<open>catch\<close>: nothing is thrown out of it.\<close>

definition process_claimed :: "env \<Rightarrow> int \<Rightarrow> signal \<Rightarrow> world \<Rightarrow> world" where
  "process_claimed e now sig w =
     (if \<not> truthy (entry_price sig) \<and> \<not> truthy (entry sig)
      then console ''[SignalConsumer] Skipping signal without entry:'' (ident sig) w
      else
        (case getPublishLog e (type_of sig) w of
           (Inl m, w1) \<Rightarrow> console ''[SignalConsumer] Error sending signal'' (ident sig) w1
         | (Inr lastp, w1) \<Rightarrow>
             (if \<not> allowed (type_of sig) lastp now
              then
                (let w2 = console ''[SignalConsumer] Deferring signal: publish window not yet elapsed'' (ident sig) w1
                 in case ext e (DeferSignal (oid sig)) w2 of
                      (Throws m, w3) \<Rightarrow> console ''[SignalConsumer] Failed to mark deferred:'' (JStr (err_text m)) w3
                    | (Returns _, w3) \<Rightarrow>
                        put_signals (updateOne (\<lambda>d. oid d = oid sig \<and> status d = Sending)
                                       (deferUpdate now) (signals w3)) w3)
              else
                (case sendSignalToPremium e sig w1 of
                   (Inl m, w2) \<Rightarrow> console ''[SignalConsumer] Error sending signal'' (ident sig) w2
                 | (Inr _, w2) \<Rightarrow> console ''[SignalConsumer] Sent signal'' (ident sig) w2))))"

text \<open>One iteration of the loop. The claim is issued outside the inner \<^verbatim>\<open>try\<close>: when the
  call throws, the error leaves the loop.\<close>

definition process_candidate :: "env \<Rightarrow> signal \<Rightarrow> world \<Rightarrow> (string + unit) \<times> world" where
  "process_candidate e sigRaw w =
     (let now = clock w in
      case ext e (ClaimSignal (oid sigRaw)) w of
        (Throws m, w1) \<Rightarrow> (Inl m, w1)
      | (Returns _, w1) \<Rightarrow>
          (case claim (oid sigRaw) now (signals w1) of
             (docs, None) \<Rightarrow> (Inr (), w1)
           | (docs, Some sig) \<Rightarrow> (Inr (), process_claimed e now sig (put_signals docs w1))))"

fun process_all :: "env \<Rightarrow> signal list \<Rightarrow> world \<Rightarrow> (string + unit) \<times> world" where
  "process_all e [] w = (Inr (), w)"
| "process_all e (sigRaw # rest) w =
     (case process_candidate e sigRaw w of
        (Inl m, w1) \<Rightarrow> (Inl m, w1)
      | (Inr _, w1) \<Rightarrow> process_all e rest w1)"

subsection \<open>News\<close>

definition is_space :: "char \<Rightarrow> bool" where
  "is_space c = (c \<in> set [CHR '' '', CHR 0x09, CHR 0x0A, CHR 0x0B, CHR 0x0C, CHR 0x0D])"

definition digit_of :: "char \<Rightarrow> nat option" where
  "digit_of c = (let n = (of_char c :: nat) in if 48 \<le> n \<and> n \<le> 57 then Some (n - 48) else None)"

fun parse_digits :: "string \<Rightarrow> nat \<Rightarrow> nat" where
  "parse_digits [] acc = acc"
| "parse_digits (c # cs) acc =
     (case digit_of c of None \<Rightarrow> acc | Some d \<Rightarrow> parse_digits cs (acc * 10 + d))"

text \<open>\<^verbatim>\<open>parseInt(s, 10)\<close>; \<open>None\<close> stands for \<^verbatim>\<open>NaN\<close>.\<close>

definition parseInt10 :: "string \<Rightarrow> int option" where
  "parseInt10 s =
     (let t = dropWhile is_space s;
          neg = (case t of c # cs \<Rightarrow> c = CHR ''-'' | [] \<Rightarrow> False);
          r = (case t of c # cs \<Rightarrow> if c = CHR ''-'' \<or> c = CHR ''+'' then cs else t | [] \<Rightarrow> [])
      in case r of
           [] \<Rightarrow> None
         | c # cs \<Rightarrow>
             (case digit_of c of
                None \<Rightarrow> None
              | Some d \<Rightarrow> Some ((if neg then - 1 else 1) * int (parse_digits r 0))))"

text \<open>\<^verbatim>\<open>parseInt(process.env.NEWS_PUBLISH_INTERVAL_MINUTES || '60', 10)\<close>\<close>

definition newsIntervalMin :: "env \<Rightarrow> int option" where
  "newsIntervalMin e =
     parseInt10 (case env_or (NEWS_PUBLISH_INTERVAL_MINUTES e) None of Some s \<Rightarrow> s | None \<Rightarrow> ''60'')"

text \<open>A comparison with \<^verbatim>\<open>NaN\<close> is false.\<close>

definition news_allowed :: "int option \<Rightarrow> int option \<Rightarrow> int \<Rightarrow> bool" where
  "news_allowed interval lastp now =
     (case lastp of
        None \<Rightarrow> True
      | Some lastDate \<Rightarrow>
          (case interval of None \<Rightarrow> False | Some m \<Rightarrow> now - lastDate \<ge> m * 60 * 1000))"

text \<open>\<^verbatim>\<open>status: { $in: ['pending', null] }\<close> also matches a document without status.\<close>

definition news_claimable :: "news_item \<Rightarrow> bool" where
  "news_claimable n = (n_status n = Pending \<or> n_status n = NoStatus)"

definition news_eligible :: "int \<Rightarrow> news_item \<Rightarrow> bool" where
  "news_eligible now n =
     (news_claimable n \<and> (case n_expires_at n of Some x \<Rightarrow> now < x | None \<Rightarrow> False))"

text \<open>\<^verbatim>\<open>findOne(..., { sort: { created_at: -1 } })\<close>: the newest first, a missing date last.\<close>

definition find_news :: "int \<Rightarrow> news_item list \<Rightarrow> news_item option" where
  "find_news now ns =
     (case rev (sort_key n_created_at (filter (news_eligible now) ns)) of
        [] \<Rightarrow> None
      | n # rest \<Rightarrow> Some n)"

definition newsClaimUpdate :: "int \<Rightarrow> news_item \<Rightarrow> news_item" where
  "newsClaimUpdate now n = n\<lparr>n_status := Sending, n_claimed_at := Some now\<rparr>"

definition newsPublishUpdate :: "int \<Rightarrow> news_item \<Rightarrow> news_item" where
  "newsPublishUpdate now n = n\<lparr>n_status := Published, published_at := Some now\<rparr>"

definition newsRevertUpdate :: "int \<Rightarrow> news_item \<Rightarrow> news_item" where
  "newsRevertUpdate now n = n\<lparr>n_status := Pending, failed_at := Some now\<rparr>"

definition sendNewsToPremium :: "env \<Rightarrow> news_item \<Rightarrow> world \<Rightarrow> (string + unit) \<times> world" where
  "sendNewsToPremium e newsItem w =
     (case env_or (PREMIUM_CHANNEL_ID e) None of
        None \<Rightarrow> (Inr (), console ''[SignalConsumer] PREMIUM_CHANNEL_ID not set, skipping news'' JUndefined w)
      | Some channelId \<Rightarrow>
          (case ext e (SendMessage channelId (formatNewsMessage (render e) newsItem)) w of
             (Throws m, w1) \<Rightarrow> (Inl m, console ''[SignalConsumer] Failed to send news:'' (JStr m) w1)
           | (Returns _, w1) \<Rightarrow>
               (Inr (), console ''[SignalConsumer] Posted news to premium channel:'' (JObjectId (n_oid newsItem)) w1)))"

text \<open>The inner \<^verbatim>\<open>try\<close> of \<open>publishNewsIfReady\<close>: send, mark as published, update the
  publish log.\<close>

definition news_send_and_mark :: "env \<Rightarrow> int \<Rightarrow> news_item \<Rightarrow> world \<Rightarrow> (string + unit) \<times> world" where
  "news_send_and_mark e now claimed w =
     (case sendNewsToPremium e claimed w of
        (Inl m, w1) \<Rightarrow> (Inl m, w1)
      | (Inr _, w1) \<Rightarrow>
     (case ext e (PublishNews (n_oid claimed)) w1 of
        (Throws m, w2) \<Rightarrow> (Inl m, w2)
      | (Returns _, w2) \<Rightarrow>
     (let w3 = put_news (updateOne (\<lambda>n. n_oid n = n_oid claimed) (newsPublishUpdate now) (news_updates w2)) w2
      in case setPublishLog e ''news'' now w3 of
           (Inl m, w4) \<Rightarrow> (Inl m, w4)
         | (Inr _, w4) \<Rightarrow>
             (Inr (), console ''[SignalConsumer] News published and logged:'' (JObjectId (n_oid claimed)) w4))))"

definition news_error :: "string \<Rightarrow> world \<Rightarrow> world" where
  "news_error m w = console ''[SignalConsumer] Error in publishNewsIfReady:'' (JStr m) w"

definition publishNewsIfReady :: "env \<Rightarrow> world \<Rightarrow> world" where
  "publishNewsIfReady e w =
     (let now = clock w in
      case getPublishLog e ''news'' w of
        (Inl m, w1) \<Rightarrow> news_error m w1
      | (Inr lastp, w1) \<Rightarrow>
     (if \<not> news_allowed (newsIntervalMin e) lastp now then w1
      else
     (case ext e FindNews w1 of
        (Throws m, w2) \<Rightarrow> news_error m w2
      | (Returns _, w2) \<Rightarrow>
     (case find_news now (news_updates w2) of
        None \<Rightarrow> w2
      | Some newsItem \<Rightarrow>
     (case ext e (ClaimNews (n_oid newsItem)) w2 of
        (Throws m, w3) \<Rightarrow> news_error m w3
      | (Returns _, w3) \<Rightarrow>
     (case findOneAndUpdate (\<lambda>n. n_oid n = n_oid newsItem \<and> news_claimable n)
             (newsClaimUpdate now) (news_updates w3) of
        (ns, None) \<Rightarrow> w3
      | (ns, Some claimed) \<Rightarrow>
     (case news_send_and_mark e now claimed (put_news ns w3) of
        (Inr _, w5) \<Rightarrow> w5
      | (Inl err, w5) \<Rightarrow>
          (case ext e (RevertNews (n_oid newsItem)) w5 of
             (Throws m, w6) \<Rightarrow> news_error m w6
           | (Returns _, w6) \<Rightarrow>
               news_error err
                 (put_news (updateOne (\<lambda>n. n_oid n = n_oid newsItem \<and> n_status n = Sending)
                              (newsRevertUpdate now) (news_updates w6)) w6)))))))))"

subsection \<open>The tick\<close>

text \<open>One pass of \<open>tick\<close> while the consumer is running; scheduling the next pass is
  outside the model.\<close>

definition tick :: "env \<Rightarrow> world \<Rightarrow> world" where
  "tick e w =
     (case fetchPendingSignals e 10 w of
        (Inl m, w1) \<Rightarrow> console ''[SignalConsumer] Tick error:'' (JStr m) w1
      | (Inr sigs, w1) \<Rightarrow>
          (case process_all e sigs w1 of
             (Inl m, w2) \<Rightarrow> console ''[SignalConsumer] Tick error:'' (JStr m) w2
           | (Inr _, w2) \<Rightarrow> publishNewsIfReady e w2))"

section \<open>The single-tick endpoint\<close>

text \<open>
  The request handler of the single-tick endpoint, from the fetch of the batch on (the
  request has passed the token and method checks and the store is connected), as the
  second module of \<^verbatim>\<open>api/signal-form.js\<close> has it. (The file \<^verbatim>\<open>api/run-consumer.js\<close> opens
  two \<^verbatim>\<open>try\<close> blocks for one \<^verbatim>\<open>catch\<close> and is not a program.) Each claimed signal is handled
  in one \<^verbatim>\<open>try\<close> whose \<^verbatim>\<open>catch\<close> records an error outcome; a news pass follows the batch.
\<close>

datatype item_result =
    Sent nat string int
  | DeferredResult nat
  | Skipped nat string
  | ErrorResult nat string
  | NewsSent nat string int
  | NewsError nat string

definition handler_error :: "signal \<Rightarrow> string \<Rightarrow> world \<Rightarrow> item_result \<times> world" where
  "handler_error sig m w =
     (ErrorResult (oid sig) (err_text m),
      console ''run-consumer error for signal'' (JObjectId (oid sig)) w)"

definition handler_item :: "env \<Rightarrow> int \<Rightarrow> signal \<Rightarrow> world \<Rightarrow> item_result \<times> world" where
  "handler_item e now sig w =
     (if \<not> truthy (entry_price sig) \<and> \<not> truthy (entry sig)
      then (Skipped (oid sig) ''no entry'', w)
      else
     (case getPublishLog e (type_of sig) w of
        (Inl m, w1) \<Rightarrow> handler_error sig m w1
      | (Inr lastp, w1) \<Rightarrow>
     (if \<not> allowed (type_of sig) lastp now
      then
        (case ext e (DeferSignal (oid sig)) w1 of
           (Throws m, w2) \<Rightarrow> handler_error sig m w2
         | (Returns _, w2) \<Rightarrow>
             (DeferredResult (oid sig),
              put_signals (updateOne (\<lambda>d. oid d = oid sig \<and> status d = Sending)
                             (deferUpdate now) (signals w2)) w2))
      else
     (case env_or (chat_of e sig) None of
        None \<Rightarrow> (Skipped (oid sig) ''no channel configured'', w1)
      | Some chatId \<Rightarrow>
     (case handler_text (render e) sig of
        Inl err \<Rightarrow> handler_error sig err w1
      | Inr text \<Rightarrow>
     (case ext e (SendMessage chatId text) w1 of
        (Throws m, w2) \<Rightarrow> handler_error sig m w2
      | (Returns message_id, w2) \<Rightarrow>
     (let sent = clock w2 in
      case ext e (CommitSignal (oid sig)) w2 of
        (Throws m, w3) \<Rightarrow> handler_error sig m w3
      | (Returns _, w3) \<Rightarrow>
     (let w4 = put_signals (updateOne (\<lambda>d. oid d = oid sig)
                              (commitUpdate sent message_id chatId) (signals w3)) w3
      in case setPublishLog e (type_of sig) (clock w4) w4 of
           (Inl m, w5) \<Rightarrow> handler_error sig m w5
         | (Inr _, w5) \<Rightarrow> (Sent (oid sig) chatId message_id, w5)))))))))"

fun handler_loop ::
  "env \<Rightarrow> int \<Rightarrow> signal list \<Rightarrow> item_result list \<Rightarrow> world \<Rightarrow> (string + item_result list) \<times> world" where
  "handler_loop e now [] results w = (Inr results, w)"
| "handler_loop e now (sigRaw # rest) results w =
     (let claimedAt = clock w in
      case ext e (ClaimSignal (oid sigRaw)) w of
        (Throws m, w1) \<Rightarrow> (Inl m, w1)
      | (Returns _, w1) \<Rightarrow>
          (case claim (oid sigRaw) claimedAt (signals w1) of
             (docs, None) \<Rightarrow> handler_loop e now rest results w1
           | (docs, Some sig) \<Rightarrow>
               (case handler_item e now sig (put_signals docs w1) of
                  (r, w2) \<Rightarrow> handler_loop e now rest (results @ [r]) w2)))"

subsection \<open>The news pass of the endpoint\<close>

text \<open>The destination is \<^verbatim>\<open>process.env.PREMIUM_CHANNEL_ID\<close> as it is, set or not.\<close>

definition premium_chat :: "env \<Rightarrow> string" where
  "premium_chat e = (case PREMIUM_CHANNEL_ID e of Some s \<Rightarrow> s | None \<Rightarrow> ''undefined'')"

definition handlerNewsPublishUpdate :: "int \<Rightarrow> int \<Rightarrow> news_item \<Rightarrow> news_item" where
  "handlerNewsPublishUpdate now mid n =
     n\<lparr>n_status := Published, published_at := Some now, n_last_telegram_message_id := Some mid\<rparr>"

text \<open>The inner \<^verbatim>\<open>try\<close> of the news pass: send, mark as published, update the publish
  log. It returns the message id.\<close>

definition handler_news_publish :: "env \<Rightarrow> news_item \<Rightarrow> world \<Rightarrow> (string + int) \<times> world" where
  "handler_news_publish e claimed w =
     (case ext e (SendMessage (premium_chat e) (formatNewsMessage (render e) claimed)) w of
        (Throws m, w1) \<Rightarrow> (Inl m, w1)
      | (Returns message_id, w1) \<Rightarrow>
     (let published = clock w1 in
      case ext e (PublishNews (n_oid claimed)) w1 of
        (Throws m, w2) \<Rightarrow> (Inl m, w2)
      | (Returns _, w2) \<Rightarrow>
     (let w3 = put_news (updateOne (\<lambda>n. n_oid n = n_oid claimed)
                           (handlerNewsPublishUpdate published message_id) (news_updates w2)) w2
      in case setPublishLog e ''news'' (clock w3) w3 of
           (Inl m, w4) \<Rightarrow> (Inl m, w4)
         | (Inr _, w4) \<Rightarrow> (Inr message_id, w4))))"

definition handler_news_error :: "string \<Rightarrow> world \<Rightarrow> world" where
  "handler_news_error m w = console ''run-consumer news error:'' (JStr (err_text m)) w"

definition handler_news :: "env \<Rightarrow> int \<Rightarrow> item_result list \<Rightarrow> world \<Rightarrow> item_result list \<times> world" where
  "handler_news e now results w =
     (case getPublishLog e ''news'' w of
        (Inl m, w1) \<Rightarrow> (results, handler_news_error m w1)
      | (Inr lastp, w1) \<Rightarrow>
     (if \<not> news_allowed (newsIntervalMin e) lastp now then (results, w1)
      else
     (case ext e FindNews w1 of
        (Throws m, w2) \<Rightarrow> (results, handler_news_error m w2)
      | (Returns _, w2) \<Rightarrow>
     (case find_news now (news_updates w2) of
        None \<Rightarrow> (results, w2)
      | Some newsItem \<Rightarrow>
     (case ext e (ClaimNews (n_oid newsItem)) w2 of
        (Throws m, w3) \<Rightarrow> (results, handler_news_error m w3)
      | (Returns _, w3) \<Rightarrow>
     (case findOneAndUpdate (\<lambda>n. n_oid n = n_oid newsItem \<and> news_claimable n)
             (newsClaimUpdate now) (news_updates w3) of
        (ns, None) \<Rightarrow> (results, w3)
      | (ns, Some claimed) \<Rightarrow>
     (case handler_news_publish e claimed (put_news ns w3) of
        (Inr message_id, w5) \<Rightarrow>
          (results @ [NewsSent (n_oid newsItem) (premium_chat e) message_id], w5)
      | (Inl err, w5) \<Rightarrow>
          (let w6 = console ''run-consumer error for news'' (JObjectId (n_oid newsItem)) w5
           in case ext e (RevertNews (n_oid newsItem)) w6 of
                (Throws m, w7) \<Rightarrow> (results, handler_news_error m w7)
              | (Returns _, w7) \<Rightarrow>
                  (results @ [NewsError (n_oid newsItem) (err_text err)],
                   put_news (updateOne (\<lambda>n. n_oid n = n_oid newsItem \<and> n_status n = Sending)
                               (newsRevertUpdate now) (news_updates w7)) w7)))))))))"

definition handler :: "env \<Rightarrow> world \<Rightarrow> (string + item_result list) \<times> world" where
  "handler e w =
     (let now = clock w in
      case ext e (FindPendingSignals 20) w of
        (Throws m, w1) \<Rightarrow> (Inl m, w1)
      | (Returns _, w1) \<Rightarrow>
          (case handler_loop e now (find_pending now 20 (signals w1)) [] w1 of
             (Inl m, w2) \<Rightarrow> (Inl m, w2)
           | (Inr results, w2) \<Rightarrow>
               (case handler_news e now results w2 of (rs, w3) \<Rightarrow> (Inr rs, w3))))"

section \<open>Observations\<close>

text \<open>The status of the document with a given id, and the sends of a trace that the
  transport accepted (destination, text, message id).\<close>

definition status_of :: "nat \<Rightarrow> signal list \<Rightarrow> status option" where
  "status_of i ds = map_option status (find (\<lambda>d. oid d = i) ds)"

fun sent_message :: "event \<Rightarrow> (string \<times> string \<times> int) list" where
  "sent_message (Ext (SendMessage ch text) (Returns message_id)) = [(ch, text, message_id)]"
| "sent_message ev = []"

definition sends :: "event list \<Rightarrow> (string \<times> string \<times> int) list" where
  "sends tr = concat (map sent_message tr)"

fun console_line :: "event \<Rightarrow> string list" where
  "console_line (Console msg v) = [msg]"
| "console_line ev = []"

definition consoles :: "event list \<Rightarrow> string list" where
  "consoles tr = concat (map console_line tr)"

text \<open>What a run leaves behind, in short: the statuses of the signals, the destination
  and message id of each accepted send, the publish log entries of the three types and
  the number of delivery failure records.\<close>

definition digest :: "world \<Rightarrow> status list \<times> (string \<times> int) list \<times> int option option list \<times> nat" where
  "digest w =
     (map status (signals w),
      map (\<lambda>(ch, text, message_id). (ch, message_id)) (sends (trace w)),
      map (signal_publish_log w) [''premium'', ''free'', ''news''],
      length (telegram_signal_logs w))"

text \<open>The texts handed to the transport, whether it accepted them or not.\<close>

fun message_of :: "event \<Rightarrow> string list" where
  "message_of (Ext (SendMessage ch body) r) = [body]"
| "message_of ev = []"

definition messages :: "event list \<Rightarrow> string list" where
  "messages tr = concat (map message_of tr)"






section \<open>Status transitions\<close>

text \<open>
  One step of a signal document: it stays as it is, or it keeps its \<open>_id\<close> and its status
  moves from \<open>Pending\<close> to \<open>Sending\<close>, from \<open>Sending\<close> to \<open>Active\<close> or from \<open>Sending\<close>
  to \<open>Deferred\<close>. In particular a document that is \<open>Active\<close> or \<open>Deferred\<close> can only
  stay as it is. A step of the collection is a step of each document, in place.
\<close>

definition sig_step :: "signal \<Rightarrow> signal \<Rightarrow> bool" where
  "sig_step d d' =
     (d' = d \<or>
      (oid d' = oid d \<and>
       ((status d = Pending \<and> status d' = Sending) \<or>
        (status d = Sending \<and> status d' = Active) \<or>
        (status d = Sending \<and> status d' = Deferred))))"

definition store_step :: "signal list \<Rightarrow> signal list \<Rightarrow> bool" where
  "store_step ds ds' = list_all2 sig_step ds ds'"

text \<open>One step of a news document: from pending (or no status) to \<open>Sending\<close>, from
  \<open>Sending\<close> to \<open>Published\<close>, or from \<open>Sending\<close> back to \<open>Pending\<close>.\<close>

definition news_step :: "news_item \<Rightarrow> news_item \<Rightarrow> bool" where
  "news_step n n' =
     (n' = n \<or>
      (n_oid n' = n_oid n \<and>
       ((news_claimable n \<and> n_status n' = Sending) \<or>
        (n_status n = Sending \<and> n_status n' = Published) \<or>
        (n_status n = Sending \<and> n_status n' = Pending))))"

definition news_store_step :: "news_item list \<Rightarrow> news_item list \<Rightarrow> bool" where
  "news_store_step ns ns' = list_all2 news_step ns ns'"

text \<open>
  The world \<open>w'\<close> extends the world \<open>w\<close> when the history of each collection in \<open>w'\<close> is
  the one of \<open>w\<close> followed by further contents, each a step away from the contents before
  it (the first of them from the collection of \<open>w\<close>), and the collection of \<open>w'\<close> is the
  last of them.
\<close>

definition extends :: "world \<Rightarrow> world \<Rightarrow> bool" where
  "extends w w' =
     (let hs = drop (length (signals_hist w)) (signals_hist w');
          hn = drop (length (news_hist w)) (news_hist w')
      in signals_hist w' = signals_hist w @ hs \<and>
         successively store_step (signals w # hs) \<and>
         signals w' = last (signals w # hs) \<and>
         news_hist w' = news_hist w @ hn \<and>
         successively news_store_step (news_updates w # hn) \<and>
         news_updates w' = last (news_updates w # hn))"



text \<open>A series of passes of consumers over the same store, each with its own environment:
  ticks of the long-lived consumer and requests to the single-tick endpoint.\<close>

datatype pass = LongLived env | SingleTick env

fun run_pass :: "pass \<Rightarrow> world \<Rightarrow> world" where
  "run_pass (LongLived e) w = tick e w"
| "run_pass (SingleTick e) w = snd (handler e w)"

definition run :: "pass list \<Rightarrow> world \<Rightarrow> world" where
  "run ps w = fold run_pass ps w"

section \<open>Concrete inputs\<close>

definition premium_signal :: signal where
  "premium_signal =
     \<lparr>oid = 1, sig_id = JUndefined, status = Pending, is_premium = JBool True,
      expires_at = Some 900000000, generated_at = Some 500,
      market_type = JStr ''crypto'', signal_type = JStr ''LONG'', pair = JStr ''BTC_USDT'',
      entry_price = JNum 73500, entry = JUndefined, stop_loss = JNum 71200, stop = JUndefined,
      take_profit = JNum 76800, take_fld = JUndefined, confidence_level = JNum 85,
      risk_reward_ratio = JUndefined, reasoning = JUndefined, validation_warnings = None,
      claimed_at = None, deferred_at = None, sent_at = None,
      last_telegram_message_id = None, sent_channels = []\<rparr>"

definition plain_fmt :: fmt where
  "plain_fmt = \<lparr>toLocaleString = show_int, toFixed2 = js_String\<rparr>"

text \<open>An environment in which every call takes a second and returns 7.\<close>

definition calm_env :: env where
  "calm_env =
     \<lparr>outcomes = (\<lambda>k. (1000, Returns 7)), PREMIUM_CHANNEL_ID = Some ''@premium'',
      FREE_CHANNEL_ID = Some ''@free'', NEWS_PUBLISH_INTERVAL_MINUTES = None,
      USE_MONGO_DB = None, render = plain_fmt\<rparr>"

definition start_world :: "signal list \<Rightarrow> news_item list \<Rightarrow> world" where
  "start_world ds ns =
     \<lparr>signals = ds, news_updates = ns, signal_publish_log = (\<lambda>k. None),
      telegram_signal_logs = [], failedUpdateCache = [], clock = 100000, calls = 0,
      trace = [], signals_hist = [ds], news_hist = [ns]\<rparr>"

text \<open>A pending signal without the \<open>is_premium\<close> field, and an environment whose
  sixth call (the update of the publish log, when the single-tick endpoint handles one
  signal) throws.\<close>

definition unlabelled_signal :: signal where
  "unlabelled_signal = premium_signal\<lparr>is_premium := JUndefined\<rparr>"

definition ledger_down_env :: env where
  "ledger_down_env =
     calm_env\<lparr>outcomes := (\<lambda>k. if k = 5 then (1000, Throws ''ledger down'') else (1000, Returns 7))\<rparr>"

definition no_entry_signal :: signal where
  "no_entry_signal = premium_signal\<lparr>entry_price := JUndefined\<rparr>"

text \<open>Eleven pending premium signals, generated one after the other, and two news
  items, the newer one without a status.\<close>

definition eleven_signals :: "signal list" where
  "eleven_signals =
     map (\<lambda>k. premium_signal\<lparr>oid := k, generated_at := Some (int k)\<rparr>) [1, 2, 3, 4, 5, 6, 7, 8, 9, 10, 11]"

definition older_news :: news_item where
  "older_news =
     \<lparr>n_oid = 1, n_status = Pending, n_expires_at = Some 900000000, n_created_at = Some 100,
      title = JStr ''Rates on hold'', summary = JUndefined, source = JUndefined,
      provider = JUndefined, url = JUndefined, n_claimed_at = None, published_at = None,
      failed_at = None, n_last_telegram_message_id = None\<rparr>"





text \<open>Environments in which the store fails after the \<open>n\<close>-th call: for the three
  calls that follow it, or for good.\<close>

definition commit_down_env :: "nat \<Rightarrow> env" where
  "commit_down_env n =
     calm_env\<lparr>outcomes := (\<lambda>k. if n < k \<and> k \<le> n + 3 then (1000, Throws ''store down'')
                              else (1000, Returns 7))\<rparr>"

definition store_down_env :: "nat \<Rightarrow> env" where
  "store_down_env n =
     calm_env\<lparr>outcomes := (\<lambda>k. if n < k then (1000, Throws ''store down'') else (1000, Returns 7))\<rparr>"

text \<open>The same environment with the Mongo application database selected.\<close>

definition mongo_app :: "env \<Rightarrow> env" where
  "mongo_app e = e\<lparr>USE_MONGO_DB := Some ''true''\<rparr>"


text \<open>An environment in which only the fourth call (the transport send of a news pass that
  starts a run) throws.\<close>

definition send_down_env :: env where
  "send_down_env =
     calm_env\<lparr>outcomes := (\<lambda>k. if k = 3 then (1000, Throws ''transport down'') else (1000, Returns 7))\<rparr>"


section \<open>Properties of the store operations\<close>

lemma updateOne_no_match: "find P xs = None \<Longrightarrow> updateOne P f xs = xs"
  by (induction xs) (auto split: if_splits)

lemma map_updateOne: "(\<And>x. g (f x) = g x) \<Longrightarrow> map g (updateOne P f xs) = map g xs"
  by (induction xs) auto

lemma length_updateOne [simp]: "length (updateOne P f xs) = length xs"
  by (induction xs) auto

lemma find_None_oid: "i \<notin> oid ` set docs \<Longrightarrow> find (claimFilter i) docs = None"
  unfolding claimFilter_def by (induction docs) auto

lemma claim_once:
  "distinct (map oid docs) \<Longrightarrow>
   find (claimFilter i) (updateOne (claimFilter i) (claimUpdate now) docs) = None"
proof (induction docs)
  case Nil
  then show ?case by simp
next
  case (Cons x xs)
  show ?case
  proof (cases "claimFilter i x")
    case True
    then have "i \<notin> oid ` set xs" using Cons.prems by (auto simp: claimFilter_def)
    then have "find (claimFilter i) xs = None" by (rule find_None_oid)
    moreover have "\<not> claimFilter i (claimUpdate now x)"
      by (simp add: claimFilter_def claimUpdate_def)
    ultimately show ?thesis using True by simp
  next
    case False
    then show ?thesis using Cons by simp
  qed
qed


lemma find_claimFilter_distinct:
  "distinct (map oid docs) \<Longrightarrow> find (\<lambda>d. oid d = i) docs = Some d \<Longrightarrow>
   find (claimFilter i) docs = (if status d = Pending then Some d else None)"
proof (induction docs)
  case Nil
  then show ?case by simp
next
  case (Cons x xs)
  show ?case
  proof (cases "oid x = i")
    case True
    then have "i \<notin> oid ` set xs" using Cons.prems by auto
    then have "find (claimFilter i) xs = None" by (rule find_None_oid)
    moreover have "claimFilter i x = (status x = Pending)"
      using True by (simp add: claimFilter_def)
    ultimately show ?thesis using True Cons.prems by auto
  next
    case False
    then have "\<not> claimFilter i x" by (simp add: claimFilter_def)
    then show ?thesis using False Cons by auto
  qed
qed

lemma claim_result:
  assumes "distinct (map oid docs)" and "find (\<lambda>d. oid d = i) docs = Some d"
  shows "claim i t docs =
           (if status d = Pending
            then (updateOne (claimFilter i) (claimUpdate t) docs,
                  Some (d\<lparr>status := Sending, claimed_at := Some t\<rparr>))
            else (docs, None))"
  using find_claimFilter_distinct [OF assms]
  by (simp add: claim_def findOneAndUpdate_def updateOne_no_match claimUpdate_def)

lemma claim_then_none:
  assumes "distinct (map oid docs)"
  shows "find (claimFilter i) (fst (claim i t docs)) = None"
proof (cases "find (claimFilter i) docs")
  case None
  then show ?thesis by (simp add: claim_def findOneAndUpdate_def updateOne_no_match)
next
  case (Some a)
  show ?thesis using claim_once [OF assms] by (simp add: claim_def findOneAndUpdate_def)
qed

lemma find_oid_claimed:
  "distinct (map oid docs) \<Longrightarrow> find (\<lambda>d. oid d = i) docs = Some d \<Longrightarrow> status d = Pending \<Longrightarrow>
   find (\<lambda>d. oid d = i) (updateOne (claimFilter i) (claimUpdate t) docs) = Some (claimUpdate t d)"
proof (induction docs)
  case Nil
  then show ?case by simp
next
  case (Cons x xs)
  show ?case
  proof (cases "oid x = i")
    case True
    then have "x = d" using Cons.prems by simp
    then show ?thesis using True Cons.prems by (simp add: claimFilter_def claimUpdate_def)
  next
    case False
    then have "\<not> claimFilter i x" by (simp add: claimFilter_def)
    then show ?thesis using False Cons by simp
  qed
qed


lemma sends_append [simp]: "sends (tr @ tr') = sends tr @ sends tr'"
  by (simp add: sends_def)

lemma sends_Nil [simp]: "sends [] = []"
  by (simp add: sends_def)

lemma sends_Cons [simp]: "sends (ev # tr) = sent_message ev @ sends tr"
  by (simp add: sends_def)

lemma env_or_Some: "chat \<noteq> [] \<Longrightarrow> env_or (Some chat) None = Some chat"
  by (cases chat) (simp_all add: env_or_def)

lemma err_text_nonempty [simp]: "err_text m \<noteq> []"
  by (simp add: err_text_def)


lemma find_key_member:
  "distinct (map key xs) \<Longrightarrow> x \<in> set xs \<Longrightarrow> find (\<lambda>y. key y = key x) xs = Some x"
  by (induction xs) (auto simp: image_iff)

lemma find_key_filter:
  "distinct (map key xs) \<Longrightarrow> find (\<lambda>y. key y = i) xs = Some x \<Longrightarrow> Q x \<Longrightarrow>
   find (\<lambda>y. key y = i \<and> Q y) xs = Some x"
  by (induction xs) (auto split: if_splits)

lemma find_updateOne:
  assumes "distinct (map key xs)" and "find (\<lambda>y. key y = i) xs = Some x" and "P x"
    and "\<And>y. P y \<Longrightarrow> key y = i" and "\<And>y. key (f y) = key y"
  shows "find (\<lambda>y. key y = i) (updateOne P f xs) = Some (f x)"
  using assms(1,2,3)
proof (induction xs)
  case Nil
  then show ?case by simp
next
  case (Cons a xs)
  show ?case
  proof (cases "key a = i")
    case True
    then have "a = x" using Cons.prems by simp
    then show ?thesis using True Cons.prems assms(5) by simp
  next
    case False
    then have "\<not> P a" using assms(4) by blast
    then show ?thesis using False Cons by simp
  qed
qed

lemma find_news_member: "find_news now ns = Some n \<Longrightarrow> n \<in> set ns \<and> news_claimable n"
proof -
  assume a: "find_news now ns = Some n"
  let ?zs = "sort_key n_created_at (filter (news_eligible now) ns)"
  from a obtain rest where "rev ?zs = n # rest"
    by (auto simp: find_news_def split: list.splits)
  then have "n \<in> set (rev ?zs)" by simp
  then show ?thesis by (simp add: news_eligible_def)
qed

section \<open>Calls, console lines and sleeps leave the store alone\<close>

named_theorems frame

lemma ext_fst [frame]: "fst (ext e c w) = snd (outcomes e (calls w))"
  by (simp add: ext_def split: prod.splits)

lemma ext_trace [frame]: "trace (snd (ext e c w)) = trace w @ [Ext c (snd (outcomes e (calls w)))]"
  by (simp add: ext_def split: prod.splits)

lemma ext_frame [frame]:
  "signals (snd (ext e c w)) = signals w"
  "signals_hist (snd (ext e c w)) = signals_hist w"
  "news_updates (snd (ext e c w)) = news_updates w"
  "news_hist (snd (ext e c w)) = news_hist w"
  "signal_publish_log (snd (ext e c w)) = signal_publish_log w"
  "telegram_signal_logs (snd (ext e c w)) = telegram_signal_logs w"
  by (simp_all add: ext_def split: prod.splits)

lemma console_frame [frame]:
  "trace (console msg v w) = trace w @ [Console msg v]"
  "signals (console msg v w) = signals w"
  "signals_hist (console msg v w) = signals_hist w"
  "news_updates (console msg v w) = news_updates w"
  "news_hist (console msg v w) = news_hist w"
  "signal_publish_log (console msg v w) = signal_publish_log w"
  "telegram_signal_logs (console msg v w) = telegram_signal_logs w"
  by (simp_all add: console_def)

lemma sleep_frame [frame]:
  "trace (sleep ms w) = trace w @ [Sleep ms]"
  "signals (sleep ms w) = signals w"
  "signals_hist (sleep ms w) = signals_hist w"
  "news_updates (sleep ms w) = news_updates w"
  "news_hist (sleep ms w) = news_hist w"
  "signal_publish_log (sleep ms w) = signal_publish_log w"
  "telegram_signal_logs (sleep ms w) = telegram_signal_logs w"
  by (simp_all add: sleep_def)

lemma put_signals_frame [frame]:
  "trace (put_signals ds w) = trace w"
  "signals (put_signals ds w) = ds"
  "signals_hist (put_signals ds w) = signals_hist w @ [ds]"
  "news_updates (put_signals ds w) = news_updates w"
  "news_hist (put_signals ds w) = news_hist w"
  "signal_publish_log (put_signals ds w) = signal_publish_log w"
  "telegram_signal_logs (put_signals ds w) = telegram_signal_logs w"
  by (simp_all add: put_signals_def)

lemma put_news_frame [frame]:
  "trace (put_news ns w) = trace w"
  "signals (put_news ns w) = signals w"
  "signals_hist (put_news ns w) = signals_hist w"
  "news_updates (put_news ns w) = ns"
  "news_hist (put_news ns w) = news_hist w @ [ns]"
  "signal_publish_log (put_news ns w) = signal_publish_log w"
  "telegram_signal_logs (put_news ns w) = telegram_signal_logs w"
  by (simp_all add: put_news_def)

lemma getPublishLog_frame [frame]:
  "trace (snd (getPublishLog e type w)) = trace w @ [Ext (GetPublishLog type) (snd (outcomes e (calls w)))]"
  "signals (snd (getPublishLog e type w)) = signals w"
  "signals_hist (snd (getPublishLog e type w)) = signals_hist w"
  "news_updates (snd (getPublishLog e type w)) = news_updates w"
  "news_hist (snd (getPublishLog e type w)) = news_hist w"
  by (simp_all add: getPublishLog_def ext_def split: prod.splits outcome.splits)

lemma setPublishLog_frame [frame]:
  "trace (snd (setPublishLog e type t w)) = trace w @ [Ext (SetPublishLog type t) (snd (outcomes e (calls w)))]"
  "signals (snd (setPublishLog e type t w)) = signals w"
  "signals_hist (snd (setPublishLog e type t w)) = signals_hist w"
  "news_updates (snd (setPublishLog e type t w)) = news_updates w"
  "news_hist (snd (setPublishLog e type t w)) = news_hist w"
  by (simp_all add: setPublishLog_def ext_def split: prod.splits outcome.splits)

lemma logSignalDeliveryFailure_frame [frame]:
  "signals (snd (logSignalDeliveryFailure e a b c d sig w)) = signals w"
  "signals_hist (snd (logSignalDeliveryFailure e a b c d sig w)) = signals_hist w"
  "news_updates (snd (logSignalDeliveryFailure e a b c d sig w)) = news_updates w"
  "news_hist (snd (logSignalDeliveryFailure e a b c d sig w)) = news_hist w"
  by (simp_all add: logSignalDeliveryFailure_def ext_def Let_def split: prod.splits outcome.splits)

section \<open>Steps of the collections\<close>

lemma sig_step_refl [simp]: "sig_step d d"
  by (simp add: sig_step_def)

lemma store_step_refl [simp]: "store_step ds ds"
  by (simp add: store_step_def list_all2_refl)

lemma news_step_refl [simp]: "news_step n n"
  by (simp add: news_step_def)

lemma news_store_step_refl [simp]: "news_store_step ns ns"
  by (simp add: news_store_step_def list_all2_refl)










lemma extends_same:
  assumes "signals a = signals b" "signals_hist a = signals_hist b"
    "news_updates a = news_updates b" "news_hist a = news_hist b"
  shows "extends w a = extends w b"
  using assms by (simp add: extends_def)



lemma extends_frame [frame]:
  "extends w0 (snd (ext e c w)) = extends w0 w"
  "extends w0 (console msg v w) = extends w0 w"
  "extends w0 (sleep ms w) = extends w0 w"
  "extends w0 (snd (getPublishLog e type w)) = extends w0 w"
  "extends w0 (snd (setPublishLog e type t w)) = extends w0 w"
  "extends w0 (snd (logSignalDeliveryFailure e a b c' d sig w)) = extends w0 w"
  "extends w0 (w\<lparr>failedUpdateCache := fc\<rparr>) = extends w0 w"
  by (rule extends_same; simp add: frame)+






















lemma sendNewsToPremium_frame [frame]:
  "signals (snd (sendNewsToPremium e item w)) = signals w"
  "signals_hist (snd (sendNewsToPremium e item w)) = signals_hist w"
  "news_updates (snd (sendNewsToPremium e item w)) = news_updates w"
  "news_hist (snd (sendNewsToPremium e item w)) = news_hist w"
  by (simp_all add: sendNewsToPremium_def split_beta frame split: option.splits outcome.splits)




lemma fetchPendingSignals_frame [frame]:
  "signals (snd (fetchPendingSignals e limit w)) = signals w"
  "signals_hist (snd (fetchPendingSignals e limit w)) = signals_hist w"
  "news_updates (snd (fetchPendingSignals e limit w)) = news_updates w"
  "news_hist (snd (fetchPendingSignals e limit w)) = news_hist w"
  by (simp_all add: fetchPendingSignals_def split_beta Let_def frame split: outcome.splits)















section \<open>What the handling of a claimed signal writes\<close>






section \<open>Claim exclusivity\<close>






section \<open>Status transitions of the work items\<close>




section \<open>The candidate fetch\<close>













section \<open>Signals without an entry price\<close>

text \<open>
  C7. A pending signal whose \<open>entry_price\<close> and \<open>entry\<close> are both missing (or falsy) is
  claimed and then skipped: beyond the claim the pass issues no call at all for it (no
  read of the publish log, no send, no update), so the document keeps the status
  \<open>Sending\<close> the claim gave it. The long-lived consumer prints a console line naming the
  signal; the single-tick endpoint records the outcome \<open>skipped\<close>, \<open>no entry\<close>.
\<close>

theorem skip_without_entry:
  assumes "distinct (map oid (signals w))" and "find (\<lambda>d. oid d = i) (signals w) = Some d"
    and "status d = Pending" and "\<not> truthy (entry_price d)" and "\<not> truthy (entry d)"
    and "oid sigRaw = i" and "outcomes e (calls w) = (dt, Returns v)"
  shows "(case process_candidate e sigRaw w of (r, w') \<Rightarrow>
            r = Inr ()
            \<and> trace w' = trace w @ [Ext (ClaimSignal i) (Returns v),
                   Console ''[SignalConsumer] Skipping signal without entry:'' (ident d)]
            \<and> signals w' = updateOne (claimFilter i) (claimUpdate (clock w)) (signals w)
            \<and> status_of i (signals w') = Some Sending
            \<and> signal_publish_log w' = signal_publish_log w
            \<and> telegram_signal_logs w' = telegram_signal_logs w)
       \<and> (case handler_loop e t0 [sigRaw] results w of (r, w') \<Rightarrow>
            r = Inr (results @ [Skipped i ''no entry''])
            \<and> trace w' = trace w @ [Ext (ClaimSignal i) (Returns v)]
            \<and> signals w' = updateOne (claimFilter i) (claimUpdate (clock w)) (signals w)
            \<and> status_of i (signals w') = Some Sending
            \<and> signal_publish_log w' = signal_publish_log w
            \<and> telegram_signal_logs w' = telegram_signal_logs w)"
proof -
  let ?docs = "updateOne (claimFilter i) (claimUpdate (clock w)) (signals w)"
  let ?sig = "d\<lparr>status := Sending, claimed_at := Some (clock w)\<rparr>"
  have c: "claim i (clock w) (signals w) = (?docs, Some ?sig)"
    using claim_result [OF assms(1,2)] assms(3) by simp
  have st: "status_of i ?docs = Some Sending"
    using find_oid_claimed [OF assms(1,2,3)] by (simp add: status_of_def claimUpdate_def)
  have e1: "\<not> truthy (entry_price ?sig)" "\<not> truthy (entry ?sig)"
    using assms(4,5) by simp_all
  have id: "ident ?sig = ident d" by (simp add: ident_def)
  have oid: "oid ?sig = i" using assms(2) by (auto dest: find_Some_iff [THEN iffD1])
  have p: "process_claimed e t ?sig w1 =
           console ''[SignalConsumer] Skipping signal without entry:'' (ident d) w1" for t w1
    using e1 id by (simp add: process_claimed_def)
  have h: "handler_item e t ?sig w1 = (Skipped i ''no entry'', w1)" for t w1
    using e1 oid by (simp add: handler_item_def)
  show ?thesis
    using c st p h assms(6,7)
    by (simp add: process_candidate_def ext_def console_def put_signals_def Let_def)
qed

theorem skip_without_entry_witness:
  "(case process_candidate calm_env no_entry_signal (start_world [no_entry_signal] []) of
      (r, w') \<Rightarrow>
        r = Inr ()
        \<and> trace w' = [Ext (ClaimSignal 1) (Returns 7),
              Console ''[SignalConsumer] Skipping signal without entry:'' (JObjectId 1)]
        \<and> status_of 1 (signals w') = Some Sending)"
  using skip_without_entry [where w = "start_world [no_entry_signal] []" and i = 1
      and d = no_entry_signal and sigRaw = no_entry_signal and e = calm_env and dt = 1000
      and v = 7 and ?t0.0 = 0 and results = "[]"]
  by (simp add: no_entry_signal_def premium_signal_def start_world_def calm_env_def ident_def
      js_or_def split: prod.splits)

section \<open>The cadence check\<close>














text \<open>
  The long-lived consumer does not reach the publish log after a send (the collection
  handle has no \<open>db\<close>), so its cadence check never finds a date that it wrote itself: one
  tick sends two premium signals, seconds apart.
\<close>

lemma tick_sends_two_premium_signals:
  "digest (tick calm_env (start_world (take 2 eleven_signals) [])) =
     ([Active, Active], [(''@premium'', 7), (''@premium'', 7)], [None, None, None], 0)
   \<and> consoles (trace (tick calm_env (start_world (take 2 eleven_signals) []))) =
       [''[SignalConsumer] Failed to update publish_log:'', ''[SignalConsumer] Sent signal'',
        ''[SignalConsumer] Failed to update publish_log:'', ''[SignalConsumer] Sent signal'']"
  by code_simp

section \<open>Exhausted commit retries\<close>








text \<open>
  Without \<^verbatim>\<open>USE_MONGO_DB\<close> the module \<^verbatim>\<open>./db\<close> is the SQL implementation, which has no
  \<open>logSignalDeliveryFailure\<close>: after the three failed status updates nothing is
  submitted, whatever the state of the store, and the TypeError is printed.
\<close>

lemma default_database_has_no_failure_log:
  "useMongo (commit_down_env 3) = False
   \<and> digest (tick (commit_down_env 3) (start_world [premium_signal] [])) =
       ([Sending], [(''@premium'', 7)], [None, None, None], 0)
   \<and> consoles (trace (tick (commit_down_env 3) (start_world [premium_signal] []))) =
       [''[SignalConsumer] Mongo update attempt failed:'',
        ''[SignalConsumer] Mongo update attempt failed:'',
        ''[SignalConsumer] Mongo update attempt failed:'',
        ''[SignalConsumer] Failed to update Mongo after retries for signal'',
        ''[SignalConsumer] Failed to log delivery failure to SQL:'',
        ''[SignalConsumer] Sent signal'']
   \<and> calls (tick (commit_down_env 3) (start_world [premium_signal] [])) = 9
   \<and> digest (tick (mongo_app (commit_down_env 3)) (start_world [premium_signal] [])) =
       ([Sending], [(''@premium'', 7)], [None, None, None], 1)
   \<and> calls (tick (mongo_app (commit_down_env 3)) (start_world [premium_signal] [])) = 10"
  by code_simp

section \<open>A failing publish log update\<close>

text \<open>
  C5. In the single-tick endpoint the update of the publish log is awaited inside the
  \<^verbatim>\<open>try\<close> of the item. When it throws after the signal was sent and marked active, the
  error reaches the \<^verbatim>\<open>catch\<close> of the item: the signal is not sent again and stays
  \<open>Active\<close>, but the console line of a failed item is printed and the response reports
  the item as an error instead of as sent. When the update returns, the same request
  reports the item as sent. The long-lived consumer keeps what goes wrong around the
  publish log away from the item: it prints its own line and then reports the signal as
  sent.
\<close>

theorem handler_reports_ledger_failure_as_error:
  "fst (handler ledger_down_env (start_world [premium_signal] [])) = Inr [ErrorResult 1 ''ledger down'']
   \<and> digest (snd (handler ledger_down_env (start_world [premium_signal] []))) =
       ([Active], [(''@premium'', 7)], [None, None, None], 0)
   \<and> consoles (trace (snd (handler ledger_down_env (start_world [premium_signal] [])))) =
       [''run-consumer error for signal'']
   \<and> trace (snd (handler ledger_down_env (start_world [premium_signal] []))) ! 4 =
       Ext (CommitSignal 1) (Returns 7)
   \<and> trace (snd (handler ledger_down_env (start_world [premium_signal] []))) ! 5 =
       Ext (SetPublishLog ''premium'' 105000) (Throws ''ledger down'')
   \<and> fst (handler calm_env (start_world [premium_signal] [])) = Inr [Sent 1 ''@premium'' 7]
   \<and> digest (tick calm_env (start_world [premium_signal] [])) =
       ([Active], [(''@premium'', 7)], [None, None, None], 0)
   \<and> consoles (trace (tick calm_env (start_world [premium_signal] []))) =
       [''[SignalConsumer] Failed to update publish_log:'', ''[SignalConsumer] Sent signal'']"
  by code_simp

section \<open>Escaping of interpolated text\<close>



lemma messages_append [simp]: "messages (tr @ tr') = messages tr @ messages tr'"
  by (simp add: messages_def)

lemma messages_Nil [simp]: "messages [] = []"
  by (simp add: messages_def)

lemma messages_Cons [simp]: "messages (ev # tr) = message_of ev @ messages tr"
  by (simp add: messages_def)























section \<open>Signals without the premium flag\<close>

text \<open>
  C9. A pending signal document without the field \<open>is_premium\<close> passes the filter
  \<^verbatim>\<open>is_premium: { $ne: false }\<close> of the fetch. The tick then tests the truthiness of the
  field: the signal is of type \<open>free\<close>, its cadence check reads the \<open>free\<close> entry of the
  publish log and applies the window of 7 days (two days after a publication the check
  fails for it and would pass for a premium signal), and it is sent to the free channel.
\<close>

theorem unlabelled_signal_is_sent_as_free:
  "is_premium unlabelled_signal \<noteq> JBool False
   \<and> find_pending 100000 10 [unlabelled_signal] = [unlabelled_signal]
   \<and> type_of unlabelled_signal = ''free''
   \<and> \<not> allowed (type_of unlabelled_signal) (Some 0) 172800000
   \<and> allowed ''premium'' (Some 0) 172800000
   \<and> trace (tick calm_env (start_world [unlabelled_signal] [])) ! 2 =
       Ext (GetPublishLog ''free'') (Returns 7)
   \<and> map fst (sends (trace (tick calm_env (start_world [unlabelled_signal] [])))) = [''@free'']
   \<and> map status (signals (tick calm_env (start_world [unlabelled_signal] []))) = [Active]"
  by code_simp

section \<open>A failed news send\<close>

text \<open>
  C10. When the news check is passed, an item is found and claimed, and the send of that
  item throws, \<open>publishNewsIfReady\<close> prints the failure and issues the conditional
  update that puts the item back from \<open>Sending\<close> to \<open>Pending\<close> with \<open>failed_at\<close>. When
  that update returns, the item is \<open>Pending\<close> again and is eligible at every later time
  before its expiry; the error of the send is then printed. When the update itself
  throws, the item stays \<open>Sending\<close> and the error of the update is printed. In both
  cases the function returns, nothing is sent and the publish log is left as it was.
\<close>

theorem failed_news_send_reverts:
  assumes "distinct (map n_oid (news_updates w))"
    and "find_news (clock w) (news_updates w) = Some item"
    and "news_allowed (newsIntervalMin e)
           (case signal_publish_log w ''news'' of None \<Rightarrow> None | Some lp \<Rightarrow> lp) (clock w)"
    and "PREMIUM_CHANNEL_ID e = Some channelId" and "channelId \<noteq> []"
    and "outcomes e (calls w) = (d0, Returns v0)"
    and "outcomes e (Suc (calls w)) = (d1, Returns v1)"
    and "outcomes e (Suc (Suc (calls w))) = (d2, Returns v2)"
    and "outcomes e (Suc (Suc (Suc (calls w)))) = (d3, Throws m)"
    and "outcomes e (Suc (Suc (Suc (Suc (calls w))))) = (d4, r)"
    and "claimed = item\<lparr>n_status := Sending, n_claimed_at := Some (clock w)\<rparr>"
    and "reverted = claimed\<lparr>n_status := Pending, failed_at := Some (clock w)\<rparr>"
  shows "trace (publishNewsIfReady e w) = trace w @
           [Ext (GetPublishLog ''news'') (Returns v0),
            Ext FindNews (Returns v1),
            Ext (ClaimNews (n_oid item)) (Returns v2),
            Ext (SendMessage channelId (formatNewsMessage (render e) claimed)) (Throws m),
            Console ''[SignalConsumer] Failed to send news:'' (JStr m),
            Ext (RevertNews (n_oid item)) r,
            Console ''[SignalConsumer] Error in publishNewsIfReady:''
              (JStr (case r of Returns u \<Rightarrow> m | Throws m' \<Rightarrow> m'))]
         \<and> find (\<lambda>n. n_oid n = n_oid item) (news_updates (publishNewsIfReady e w)) =
             Some (case r of Returns u \<Rightarrow> reverted | Throws m' \<Rightarrow> claimed)
         \<and> news_eligible now' reverted = (\<exists>x. n_expires_at item = Some x \<and> now' < x)
         \<and> signal_publish_log (publishNewsIfReady e w) = signal_publish_log w"
proof -
  let ?i = "n_oid item"
  let ?now = "clock w"
  let ?ns1 = "updateOne (\<lambda>n. n_oid n = ?i \<and> news_claimable n) (newsClaimUpdate ?now) (news_updates w)"
  let ?ns2 = "updateOne (\<lambda>n. n_oid n = ?i \<and> n_status n = Sending) (newsRevertUpdate ?now) ?ns1"
  have mem: "item \<in> set (news_updates w)" and cl: "news_claimable item"
    using find_news_member [OF assms(2)] by simp_all
  have f0: "find (\<lambda>n. n_oid n = ?i) (news_updates w) = Some item"
    using assms(1) mem by (rule find_key_member)
  have f1: "find (\<lambda>n. n_oid n = ?i \<and> news_claimable n) (news_updates w) = Some item"
    using assms(1) f0 cl by (rule find_key_filter)
  have c: "newsClaimUpdate ?now item = claimed"
    using assms(11) by (simp add: newsClaimUpdate_def)
  have f2: "find (\<lambda>n. n_oid n = ?i) ?ns1 = Some claimed"
    using find_updateOne [OF assms(1) f0, of "\<lambda>n. n_oid n = ?i \<and> news_claimable n" "newsClaimUpdate ?now"] cl c
    by (simp add: newsClaimUpdate_def)
  have d1: "distinct (map n_oid ?ns1)"
    using assms(1) by (simp add: map_updateOne newsClaimUpdate_def)
  have rv: "newsRevertUpdate ?now claimed = reverted"
    using assms(12) by (simp add: newsRevertUpdate_def)
  have f3: "find (\<lambda>n. n_oid n = ?i) ?ns2 = Some reverted"
    using find_updateOne [OF d1 f2, of "\<lambda>n. n_oid n = ?i \<and> n_status n = Sending" "newsRevertUpdate ?now"] rv
      assms(11)
    by (simp add: newsRevertUpdate_def)
  have el: "news_eligible now' reverted = (\<exists>x. n_expires_at item = Some x \<and> now' < x)"
    using assms(11,12) by (auto simp: news_eligible_def news_claimable_def split: option.splits)
  have run: "publishNewsIfReady e w =
      (case r of
         Returns u \<Rightarrow>
           w\<lparr>clock := clock w + int d0 + int d1 + int d2 + int d3 + int d4,
             calls := Suc (Suc (Suc (Suc (Suc (calls w))))),
             trace := trace w @
               [Ext (GetPublishLog ''news'') (Returns v0), Ext FindNews (Returns v1),
                Ext (ClaimNews ?i) (Returns v2),
                Ext (SendMessage channelId (formatNewsMessage (render e) claimed)) (Throws m),
                Console ''[SignalConsumer] Failed to send news:'' (JStr m),
                Ext (RevertNews ?i) r,
                Console ''[SignalConsumer] Error in publishNewsIfReady:'' (JStr m)],
             news_updates := ?ns2, news_hist := news_hist w @ [?ns1, ?ns2]\<rparr>
       | Throws m' \<Rightarrow>
           w\<lparr>clock := clock w + int d0 + int d1 + int d2 + int d3 + int d4,
             calls := Suc (Suc (Suc (Suc (Suc (calls w))))),
             trace := trace w @
               [Ext (GetPublishLog ''news'') (Returns v0), Ext FindNews (Returns v1),
                Ext (ClaimNews ?i) (Returns v2),
                Ext (SendMessage channelId (formatNewsMessage (render e) claimed)) (Throws m),
                Console ''[SignalConsumer] Failed to send news:'' (JStr m),
                Ext (RevertNews ?i) r,
                Console ''[SignalConsumer] Error in publishNewsIfReady:'' (JStr m')],
             news_updates := ?ns1, news_hist := news_hist w @ [?ns1]\<rparr>)"
    using assms(2,3,4,5,6,7,8,9,10) f1 c
    by (cases r)
      (simp_all add: publishNewsIfReady_def getPublishLog_def ext_def Let_def findOneAndUpdate_def
        news_send_and_mark_def sendNewsToPremium_def env_or_Some console_def put_news_def
        news_error_def)
  show ?thesis
    using f2 f3 el by (cases r) (simp_all add: run)
qed


theorem failed_news_send_reverts_witness:
  "find (\<lambda>n. n_oid n = 1) (news_updates (publishNewsIfReady send_down_env (start_world [] [older_news]))) =
     Some (older_news\<lparr>n_status := Pending, n_claimed_at := Some 100000, failed_at := Some 100000\<rparr>)
   \<and> consoles (trace (publishNewsIfReady send_down_env (start_world [] [older_news]))) =
       [''[SignalConsumer] Failed to send news:'', ''[SignalConsumer] Error in publishNewsIfReady:'']"
proof -
  have f1: "find_news (clock (start_world [] [older_news])) (news_updates (start_world [] [older_news])) =
              Some older_news" by code_simp
  have f2: "news_allowed (newsIntervalMin send_down_env)
           (case signal_publish_log (start_world [] [older_news]) ''news'' of None \<Rightarrow> None | Some lp \<Rightarrow> lp)
           (clock (start_world [] [older_news]))"
    by (simp add: start_world_def news_allowed_def)
  have f3: "PREMIUM_CHANNEL_ID send_down_env = Some ''@premium''"
    by (simp add: send_down_env_def calm_env_def)
  have f4: "outcomes send_down_env (calls (start_world [] [older_news])) = (1000, Returns 7)"
    "outcomes send_down_env (Suc (calls (start_world [] [older_news]))) = (1000, Returns 7)"
    "outcomes send_down_env (Suc (Suc (calls (start_world [] [older_news])))) = (1000, Returns 7)"
    "outcomes send_down_env (Suc (Suc (Suc (calls (start_world [] [older_news]))))) =
       (1000, Throws ''transport down'')"
    "outcomes send_down_env (Suc (Suc (Suc (Suc (calls (start_world [] [older_news])))))) =
       (1000, Returns 7)"
    by (simp_all add: send_down_env_def calm_env_def start_world_def)
  have f5: "distinct (map n_oid (news_updates (start_world [] [older_news])))"
    by (simp add: start_world_def)
  have f6: "n_oid older_news = 1" "trace (start_world [] [older_news]) = []"
    "clock (start_world [] [older_news]) = 100000"
    by (simp_all add: older_news_def start_world_def)
  show ?thesis
    using failed_news_send_reverts [OF f5 f1 f2 f3 _ f4 refl refl, of 0]
    by (simp add: f6 consoles_def)
qed

text \<open>
  When the update that should put the item back throws as well, the item stays
  \<open>Sending\<close>: no later pass finds it.
\<close>

theorem failed_revert_leaves_news_claimed:
  "map n_status (news_updates (publishNewsIfReady (store_down_env 2) (start_world [] [older_news]))) =
     [Sending]
   \<and> find_news 200000 (news_updates (publishNewsIfReady (store_down_env 2) (start_world [] [older_news]))) =
       None
   \<and> consoles (trace (publishNewsIfReady (store_down_env 2) (start_world [] [older_news]))) =
       [''[SignalConsumer] Failed to send news:'', ''[SignalConsumer] Error in publishNewsIfReady:'']"
  by code_simp

end
